theory Spec2Isabelle
  imports Main
begin

section \<open>Values exchanged with the browser\<close>

text \<open>
  The hooks \<^verbatim>\<open>useWebSocket\<close> (hooks/use-websocket.ts) and \<^verbatim>\<open>useRealTimeData\<close>
  (hooks/use-real-time-data.ts) are embedded as functions on an explicit state. What
  the browser provides (\<^verbatim>\<open>JSON.parse\<close>, \<^verbatim>\<open>JSON.stringify\<close>, the
  \<^verbatim>\<open>WebSocket\<close> constructor, \<^verbatim>\<open>process.env\<close>) is a parameter of the model.

  A parsed frame is a JSON value. An object is the list of its own properties; a
  property read takes the entry of that name.
\<close>

datatype json =
    JNull
  | JBool bool
  | JNum int
  | JStr string
  | JArr "json list"
  | JObj "(string \<times> json) list"

datatype exn = SyntaxError | TypeError

text \<open>
  The argument of \<^verbatim>\<open>sendMessage\<close> has type \<^verbatim>\<open>any\<close>: a value that JSON can express,
  a BigInt, or an object that refers to itself. \<^verbatim>\<open>JSON.stringify\<close> throws a
  TypeError on the last two.
\<close>

datatype js_value = Value json | BigInt int | Circular

record environment =
  JSON_parse :: "string \<Rightarrow> json option"  \<comment> \<open>\<open>None\<close>: \<^verbatim>\<open>JSON.parse\<close> throws\<close>
  JSON_stringify :: "js_value \<Rightarrow> string option"  \<comment> \<open>\<open>None\<close>: \<^verbatim>\<open>JSON.stringify\<close> throws\<close>
  WebSocket_accepts :: "string \<Rightarrow> bool"  \<comment> \<open>\<open>False\<close>: \<^verbatim>\<open>new WebSocket(url)\<close> throws\<close>
  NEXT_PUBLIC_WS_URL :: "string option"

datatype ReadyState = CONNECTING | OPEN | CLOSING | CLOSED

datatype ConnectionStatus = Connecting | Connected | Disconnected | Error

section \<open>Renders, sockets, timers and the state of the hooks\<close>

text \<open>
  Every render of the component binds \<^verbatim>\<open>url\<close>, \<^verbatim>\<open>reconnectAttempts\<close>,
  \<^verbatim>\<open>isRealTimeEnabled\<close> and the options as constants, and creates new closures
  \<^verbatim>\<open>connect\<close>, \<^verbatim>\<open>onMessage\<close>, ... over them. A closure keeps the constants of the
  render that created it: the handlers that \<^verbatim>\<open>connect\<close> installs on a socket, and the
  timer callback that \<^verbatim>\<open>onclose\<close> schedules, read the values of the render whose
  \<^verbatim>\<open>connect\<close> was called, and the \<^verbatim>\<open>connect\<close> they call is that same closure.
  \<open>render_env\<close> is this set of captured constants.
\<close>

record render_env =
  cap_url :: string
  cap_reconnectAttempts :: nat
  cap_isRealTimeEnabled :: bool
  cap_reconnectInterval :: nat
  cap_maxReconnectAttempts :: nat

record socket =
  sock_url :: string
  readyState :: ReadyState
  handlers :: render_env  \<comment> \<open>the render that onopen, onmessage, onclose, onerror close over\<close>
  sent :: "string list"  \<comment> \<open>what \<^verbatim>\<open>send\<close> wrote to the transport\<close>

record timer =
  delay :: nat
  timer_env :: render_env  \<comment> \<open>the render the callback closes over\<close>
  pending :: bool

record hook_state =
  \<comment> \<open>\<^verbatim>\<open>useState\<close> of useRealTimeData\<close>
  isRealTimeEnabled :: bool
  lastUpdate :: "nat option"
  updateCount :: nat
  \<comment> \<open>\<^verbatim>\<open>useState\<close> of useWebSocket\<close>
  isConnected :: bool
  connectionStatus :: ConnectionStatus
  lastMessage :: "json option"
  reconnectAttempts :: nat
  \<comment> \<open>\<^verbatim>\<open>useRef\<close> of useWebSocket: an index into \<open>sockets\<close>, \<open>timers\<close>\<close>
  ws :: "nat option"
  reconnectTimeoutRef :: "nat option"
  \<comment> \<open>the options of useWebSocket\<close>
  reconnectInterval :: nat
  maxReconnectAttempts :: nat
  \<comment> \<open>the world: every socket constructed, every timer set, every call out\<close>
  sockets :: "socket list"
  timers :: "timer list"
  invalidateQueries :: "string list"
  console :: "string list"

text \<open>\<^verbatim>\<open>const wsUrl = process.env.NEXT_PUBLIC_WS_URL || "ws://localhost:8000/ws"\<close>\<close>

definition wsUrl :: "environment \<Rightarrow> string" where
  "wsUrl B =
     (case NEXT_PUBLIC_WS_URL B of
        None \<Rightarrow> ''ws://localhost:8000/ws''
      | Some u \<Rightarrow> if u = [] then ''ws://localhost:8000/ws'' else u)"

text \<open>
  The constants of the render of the current state:
  \<^verbatim>\<open>useWebSocket(isRealTimeEnabled ? wsUrl : "", {...})\<close>.
\<close>

definition render :: "environment \<Rightarrow> hook_state \<Rightarrow> render_env" where
  "render B s =
     \<lparr>cap_url = (if isRealTimeEnabled s then wsUrl B else []),
      cap_reconnectAttempts = reconnectAttempts s,
      cap_isRealTimeEnabled = isRealTimeEnabled s,
      cap_reconnectInterval = reconnectInterval s,
      cap_maxReconnectAttempts = maxReconnectAttempts s\<rparr>"

section \<open>The browser's side of sockets and timers\<close>

definition WebSocket_close :: "nat \<Rightarrow> hook_state \<Rightarrow> hook_state" where
  \<comment> \<open>\<^verbatim>\<open>close()\<close> starts the closing handshake; the close event comes later\<close>
  "WebSocket_close i s =
     (if i < length (sockets s) \<and> readyState (sockets s ! i) \<in> {CONNECTING, OPEN}
      then s\<lparr>sockets := (sockets s)[i := (sockets s ! i)\<lparr>readyState := CLOSING\<rparr>]\<rparr>
      else s)"

definition WebSocket_send :: "nat \<Rightarrow> string \<Rightarrow> hook_state \<Rightarrow> hook_state" where
  "WebSocket_send i d s =
     s\<lparr>sockets := (sockets s)[i := (sockets s ! i)\<lparr>sent := sent (sockets s ! i) @ [d]\<rparr>]\<rparr>"

definition set_readyState :: "nat \<Rightarrow> ReadyState \<Rightarrow> hook_state \<Rightarrow> hook_state" where
  "set_readyState i r s =
     s\<lparr>sockets := (sockets s)[i := (sockets s ! i)\<lparr>readyState := r\<rparr>]\<rparr>"

definition clearTimeout :: "nat \<Rightarrow> hook_state \<Rightarrow> hook_state" where
  "clearTimeout t s =
     (if t < length (timers s)
      then s\<lparr>timers := (timers s)[t := (timers s ! t)\<lparr>pending := False\<rparr>]\<rparr>
      else s)"

definition is_live :: "socket \<Rightarrow> bool" where
  "is_live k = (readyState k = CONNECTING \<or> readyState k = OPEN)"

definition open_sockets :: "hook_state \<Rightarrow> nat" where
  "open_sockets s = length (filter is_live (sockets s))"

definition pending_timers :: "hook_state \<Rightarrow> nat" where
  "pending_timers s = length (filter pending (timers s))"

section \<open>useRealTimeData: the onMessage callback\<close>

text \<open>
  \<^verbatim>\<open>update.type\<close>: reading a property of \<^verbatim>\<open>null\<close> throws a TypeError; a value that
  has no own property \<^verbatim>\<open>type\<close> gives \<^verbatim>\<open>undefined\<close> (\<open>None\<close>).
\<close>

fun type_of_update :: "json \<Rightarrow> exn + json option" where
  "type_of_update JNull = Inl TypeError"
| "type_of_update (JObj kvs) = Inr (map_of kvs ''type'')"
| "type_of_update _ = Inr None"

text \<open>The \<^verbatim>\<open>switch (update.type)\<close>: the query keys invalidated, in call order.\<close>

definition switch_type :: "json option \<Rightarrow> string list" where
  "switch_type t =
     (if t = Some (JStr ''dashboard_metrics'') then [''dashboard-metrics'']
      else if t = Some (JStr ''funnel_analysis'') then [''funnel-analysis'', ''dropoff-analysis'']
      else if t = Some (JStr ''sentiment_analysis'') then [''sentiment-analysis'']
      else if t = Some (JStr ''user_behavior'')
        then [''user-behavior'', ''user-journey-patterns'', ''similar-users'']
      else [])"

text \<open>
  The callback returns the state it leaves and the exception it throws, if any: the
  updates queued before a throw stay queued.
\<close>

definition onMessage :: "render_env \<Rightarrow> nat \<Rightarrow> json \<Rightarrow> hook_state \<Rightarrow> hook_state \<times> exn option" where
  "onMessage r now message s =
     (if \<not> cap_isRealTimeEnabled r then (s, None)
      else
        let s1 = s\<lparr>lastUpdate := Some now\<rparr>;
            s2 = s1\<lparr>updateCount := updateCount s1 + 1\<rparr>
        in case type_of_update message of
             Inl e \<Rightarrow> (s2, Some e)
           | Inr t \<Rightarrow> (s2\<lparr>invalidateQueries := invalidateQueries s2 @ switch_type t\<rparr>, None))"

section \<open>useWebSocket\<close>

definition onopen :: "render_env \<Rightarrow> hook_state \<Rightarrow> hook_state" where
  "onopen r s =
     (let s1 = s\<lparr>isConnected := True\<rparr>;
          s2 = s1\<lparr>connectionStatus := Connected\<rparr>;
          s3 = s2\<lparr>reconnectAttempts := 0\<rparr>
      in s3\<lparr>console := console s3 @ [''Real-time data connection established'']\<rparr>)"

text \<open>
  \<^verbatim>\<open>ws.current.onmessage\<close>: the \<^verbatim>\<open>try\<close> block, then the \<^verbatim>\<open>catch\<close> that logs.
  \<open>onmessage_try\<close> is the block; \<open>onmessage\<close> is the handler.
\<close>

definition onmessage_try :: "environment \<Rightarrow> render_env \<Rightarrow> nat \<Rightarrow> string \<Rightarrow> hook_state \<Rightarrow> hook_state \<times> exn option" where
  "onmessage_try B r now d s =
     (case JSON_parse B d of
        None \<Rightarrow> (s, Some SyntaxError)
      | Some message \<Rightarrow> onMessage r now message (s\<lparr>lastMessage := Some message\<rparr>))"

definition onmessage :: "environment \<Rightarrow> render_env \<Rightarrow> nat \<Rightarrow> string \<Rightarrow> hook_state \<Rightarrow> hook_state \<times> exn option" where
  "onmessage B r now d s =
     (case onmessage_try B r now d s of
        (s1, None) \<Rightarrow> (s1, None)
      | (s1, Some e) \<Rightarrow>
          (s1\<lparr>console := console s1 @ [''Failed to parse WebSocket message:'']\<rparr>, None))"

definition setTimeout :: "render_env \<Rightarrow> nat \<Rightarrow> hook_state \<Rightarrow> hook_state" where
  \<comment> \<open>\<^verbatim>\<open>reconnectTimeoutRef.current = setTimeout(() => {...}, reconnectInterval)\<close>\<close>
  "setTimeout r ms s =
     s\<lparr>timers := timers s @ [\<lparr>delay = ms, timer_env = r, pending = True\<rparr>],
       reconnectTimeoutRef := Some (length (timers s))\<rparr>"

definition onclose :: "render_env \<Rightarrow> hook_state \<Rightarrow> hook_state" where
  "onclose r s =
     (let s1 = s\<lparr>isConnected := False\<rparr>;
          s2 = s1\<lparr>connectionStatus := Disconnected\<rparr>;
          s3 = s2\<lparr>console := console s2 @ [''Real-time data connection lost'']\<rparr>
      in if cap_reconnectAttempts r < cap_maxReconnectAttempts r
         then setTimeout r (cap_reconnectInterval r) s3
         else s3)"

definition onerror :: "render_env \<Rightarrow> hook_state \<Rightarrow> hook_state" where
  "onerror r s =
     (let s1 = s\<lparr>connectionStatus := Error\<rparr>
      in s1\<lparr>console := console s1 @ [''Real-time data connection error:'']\<rparr>)"

definition connect :: "environment \<Rightarrow> render_env \<Rightarrow> hook_state \<Rightarrow> hook_state" where
  "connect B r s =
     (if cap_url r = [] then s\<lparr>connectionStatus := Disconnected, isConnected := False\<rparr>
      else
        let s1 = s\<lparr>connectionStatus := Connecting\<rparr>
        in if WebSocket_accepts B (cap_url r)
           then s1\<lparr>sockets := sockets s1 @
                       [\<lparr>sock_url = cap_url r, readyState = CONNECTING, handlers = r, sent = []\<rparr>],
                    ws := Some (length (sockets s1))\<rparr>
           else s1\<lparr>connectionStatus := Error,
                    console := console s1 @ [''WebSocket connection error:'']\<rparr>)"

text \<open>The callback of the reconnect timer set by \<^verbatim>\<open>onclose\<close>.\<close>

definition reconnect_callback :: "environment \<Rightarrow> render_env \<Rightarrow> hook_state \<Rightarrow> hook_state" where
  "reconnect_callback B r s = connect B r (s\<lparr>reconnectAttempts := reconnectAttempts s + 1\<rparr>)"

definition disconnect :: "hook_state \<Rightarrow> hook_state" where
  "disconnect s =
     (let s1 = (case reconnectTimeoutRef s of None \<Rightarrow> s | Some t \<Rightarrow> clearTimeout t s)
      in case ws s1 of None \<Rightarrow> s1 | Some i \<Rightarrow> WebSocket_close i s1)"

text \<open>
  \<^verbatim>\<open>sendMessage\<close> returns the state it leaves and either its boolean or the exception
  that \<^verbatim>\<open>JSON.stringify\<close> throws; the throw comes before \<^verbatim>\<open>send\<close>, so nothing is
  written then. The reference \<^verbatim>\<open>ws.current\<close> is an index here, so the test of
  \<^verbatim>\<open>readyState\<close> also asks that the index denotes a socket.
\<close>

definition sendMessage :: "environment \<Rightarrow> js_value \<Rightarrow> hook_state \<Rightarrow> hook_state \<times> (exn + bool)" where
  "sendMessage B message s =
     (case ws s of
        None \<Rightarrow> (s, Inr False)
      | Some i \<Rightarrow>
          if i < length (sockets s) \<and> readyState (sockets s ! i) = OPEN
          then (case JSON_stringify B message of
                  None \<Rightarrow> (s, Inl TypeError)
                | Some d \<Rightarrow> (WebSocket_send i d s, Inr True))
          else (s, Inr False))"

text \<open>
  \<^verbatim>\<open>useEffect(..., [url])\<close> after a render \<open>r\<close> in which \<^verbatim>\<open>url\<close> changed: the cleanup
  of the previous effect (\<^verbatim>\<open>disconnect()\<close>), then the effect body with the
  \<^verbatim>\<open>connect\<close> of \<open>r\<close>.
\<close>

definition useEffect_url :: "environment \<Rightarrow> hook_state \<Rightarrow> hook_state" where
  "useEffect_url B s =
     (let r = render B s; s1 = disconnect s
      in if cap_url r \<noteq> [] then connect B r s1
         else s1\<lparr>connectionStatus := Disconnected, isConnected := False\<rparr>)"

text \<open>
  \<^verbatim>\<open>toggleRealTime\<close> of the latest render, followed by the render it causes:
  \<^verbatim>\<open>url\<close> changes between \<^verbatim>\<open>""\<close> and \<^verbatim>\<open>wsUrl\<close>, so the effect runs.
\<close>

definition toggleRealTime :: "environment \<Rightarrow> hook_state \<Rightarrow> hook_state" where
  "toggleRealTime B s = useEffect_url B (s\<lparr>isRealTimeEnabled := \<not> isRealTimeEnabled s\<rparr>)"

section \<open>Events\<close>

text \<open>
  What can happen to a mounted component, one task at a time. The browser delivers
  \<^verbatim>\<open>open\<close> to a socket that is connecting, \<^verbatim>\<open>message\<close> to a socket that is open, and
  \<^verbatim>\<open>close\<close> once to a socket that is not yet closed; a failed connection sets the socket
  closed and fires \<^verbatim>\<open>error\<close>, then \<^verbatim>\<open>close\<close>. A timer fires once, if not cleared,
  and is no longer pending when its callback runs. An event that cannot happen in a
  state leaves the state as it is.
\<close>

datatype event =
    Toggle
  | SockOpen nat
  | SockMessage nat string nat
  | SockClose nat
  | SockFail nat
  | TimerFire nat

definition step :: "environment \<Rightarrow> event \<Rightarrow> hook_state \<Rightarrow> hook_state" where
  "step B e s =
     (case e of
        Toggle \<Rightarrow> toggleRealTime B s
      | SockOpen i \<Rightarrow>
          if i < length (sockets s) \<and> readyState (sockets s ! i) = CONNECTING
          then onopen (handlers (sockets s ! i)) (set_readyState i OPEN s)
          else s
      | SockMessage i d now \<Rightarrow>
          if i < length (sockets s) \<and> readyState (sockets s ! i) = OPEN
          then fst (onmessage B (handlers (sockets s ! i)) now d s)
          else s
      | SockClose i \<Rightarrow>
          if i < length (sockets s) \<and> readyState (sockets s ! i) \<noteq> CLOSED
          then onclose (handlers (sockets s ! i)) (set_readyState i CLOSED s)
          else s
      | SockFail i \<Rightarrow>
          if i < length (sockets s) \<and> readyState (sockets s ! i) \<noteq> CLOSED
          then onclose (handlers (sockets s ! i))
                 (onerror (handlers (sockets s ! i)) (set_readyState i CLOSED s))
          else s
      | TimerFire t \<Rightarrow>
          if t < length (timers s) \<and> pending (timers s ! t)
          then reconnect_callback B (timer_env (timers s ! t)) (clearTimeout t s)
          else s)"

fun run :: "environment \<Rightarrow> event list \<Rightarrow> hook_state \<Rightarrow> hook_state" where
  "run B [] s = s"
| "run B (e # es) s = run B es (step B e s)"

text \<open>
  The state after the first render: \<^verbatim>\<open>useState(false)\<close>, \<^verbatim>\<open>useState(0)\<close>,
  \<^verbatim>\<open>useState("disconnected")\<close>, ..., the options at their defaults
  (\<^verbatim>\<open>reconnectInterval = 3000\<close>, \<^verbatim>\<open>maxReconnectAttempts = 5\<close>: useRealTimeData passes
  none), and the first effect, which finds \<^verbatim>\<open>url\<close> empty.
\<close>

definition init :: hook_state where
  "init =
     \<lparr>isRealTimeEnabled = False, lastUpdate = None, updateCount = 0,
      isConnected = False, connectionStatus = Disconnected, lastMessage = None,
      reconnectAttempts = 0, ws = None, reconnectTimeoutRef = None,
      reconnectInterval = 3000, maxReconnectAttempts = 5,
      sockets = [], timers = [], invalidateQueries = [], console = []\<rparr>"

section \<open>A concrete environment\<close>

text \<open>
  What \<^verbatim>\<open>JSON.parse\<close> returns on three well-formed texts, and that it throws on any
  other text of this sample; what \<^verbatim>\<open>JSON.stringify\<close> returns on a string and on
  \<^verbatim>\<open>null\<close>, and that it throws on any other value of this sample, a BigInt among
  them; a \<^verbatim>\<open>WebSocket\<close> constructor that accepts every url; no
  \<^verbatim>\<open>NEXT_PUBLIC_WS_URL\<close>. The concrete runs below use it.
\<close>

definition sample_parse :: "string \<Rightarrow> json option" where
  \<open>sample_parse d =
     (if d = ''{"type":"dashboard_metrics","data":{},"timestamp":"2024-01-01T00:00:00Z"}''
      then Some (JObj [(''type'', JStr ''dashboard_metrics''), (''data'', JObj []),
                       (''timestamp'', JStr ''2024-01-01T00:00:00Z'')])
      else if d = ''{}'' then Some (JObj [])
      else if d = ''null'' then Some JNull
      else None)\<close>

definition sample_stringify :: "js_value \<Rightarrow> string option" where
  \<open>sample_stringify v =
     (if v = Value (JStr ''ping'') then Some ''"ping"''
      else if v = Value JNull then Some ''null''
      else None)\<close>

definition sample_env :: environment where
  "sample_env =
     \<lparr>JSON_parse = sample_parse, JSON_stringify = sample_stringify,
      WebSocket_accepts = (\<lambda>_. True), NEXT_PUBLIC_WS_URL = None\<rparr>"

text \<open>The constants of the first render of \<open>init\<close> with real-time updates enabled.\<close>

definition enabled_render :: render_env where
  "enabled_render =
     \<lparr>cap_url = ''ws://localhost:8000/ws'', cap_reconnectAttempts = 0,
      cap_isRealTimeEnabled = True, cap_reconnectInterval = 3000,
      cap_maxReconnectAttempts = 5\<rparr>"

section \<open>Notions the statements use\<close>

text \<open>The socket that \<^verbatim>\<open>ws.current\<close> refers to is open.\<close>

definition socket_open :: "hook_state \<Rightarrow> bool" where
  "socket_open s =
     (case ws s of
        None \<Rightarrow> False
      | Some i \<Rightarrow> i < length (sockets s) \<and> readyState (sockets s ! i) = OPEN)"




fun is_SockMessage :: "event \<Rightarrow> bool" where
  "is_SockMessage (SockMessage i d now) = True"
| "is_SockMessage _ = False"

text \<open>
  Every closure installed on a socket or scheduled as a timer callback was created by
  a render in which real-time updates were enabled.
\<close>

definition closures_enabled :: "hook_state \<Rightarrow> bool" where
  "closures_enabled s =
     (list_all (\<lambda>k. cap_isRealTimeEnabled (handlers k)) (sockets s) \<and>
      list_all (\<lambda>t. cap_isRealTimeEnabled (timer_env t)) (timers s))"




lemmas model_defs =
  step_def toggleRealTime_def useEffect_url_def disconnect_def connect_def render_def
  wsUrl_def onopen_def onclose_def onerror_def onmessage_def onmessage_try_def
  onMessage_def setTimeout_def clearTimeout_def reconnect_callback_def
  set_readyState_def WebSocket_close_def WebSocket_send_def sendMessage_def Let_def

section \<open>sendMessage\<close>








section \<open>Frames\<close>

text \<open>
  C6. A frame that \<^verbatim>\<open>JSON.parse\<close> rejects: the handler throws nothing (it never
  does, for any frame), and the state after it is the state before it with one more
  line on the console, so the sockets, \<^verbatim>\<open>ws.current\<close>, the connection status and
  \<^verbatim>\<open>updateCount\<close> are as they were.
\<close>

theorem malformed_frame_harmless:
  "snd (onmessage B r now d s) = None \<and>
   (JSON_parse B d = None \<longrightarrow>
      fst (onmessage B r now d s) =
        s\<lparr>console := console s @ [''Failed to parse WebSocket message:'']\<rparr> \<and>
      (step B (SockMessage i d now) s)\<lparr>console := console s\<rparr> = s)"
  by (simp add: onmessage_def onmessage_try_def step_def split: prod.split option.split)

theorem malformed_frame_harmless_witness:
  "JSON_parse sample_env ''not json'' = None \<and>
   (let s = run sample_env [Toggle, SockOpen 0] init;
        s' = step sample_env (SockMessage 0 ''not json'' 7) s
    in socket_open s \<and> updateCount s' = updateCount s \<and> sockets s' = sockets s \<and>
       connectionStatus s' = Connected \<and> isConnected s' \<and> ws s' = ws s \<and>
       console s' = console s @ [''Failed to parse WebSocket message:''])"
  using malformed_frame_harmless [of sample_env _ 7 "''not json''"
      "run sample_env [Toggle, SockOpen 0] init" 0]
  by (simp add: Let_def socket_open_def init_def sample_env_def sample_parse_def model_defs)

text \<open>
  C5, as the claim states it, fails: the handler does not look for \<^verbatim>\<open>type\<close> or
  \<^verbatim>\<open>data\<close>. The frame \<^verbatim>\<open>{}\<close> parses to an object with neither field; delivered to
  an open socket it becomes \<^verbatim>\<open>lastMessage\<close>, and \<^verbatim>\<open>onMessage\<close> runs on it: the
  update time is set and \<^verbatim>\<open>updateCount\<close> goes from 0 to 1.
\<close>

theorem frame_without_fields_counterexample:
  "JSON_parse sample_env ''{}'' = Some (JObj []) \<and>
   map_of ([] :: (string \<times> json) list) ''type'' = None \<and>
   map_of ([] :: (string \<times> json) list) ''data'' = None \<and>
   readyState (sockets (run sample_env [Toggle, SockOpen 0] init) ! 0) = OPEN \<and>
   lastMessage (run sample_env [Toggle, SockOpen 0, SockMessage 0 ''{}'' 7] init) =
     Some (JObj []) \<and>
   lastUpdate (run sample_env [Toggle, SockOpen 0, SockMessage 0 ''{}'' 7] init) = Some 7 \<and>
   updateCount (run sample_env [Toggle, SockOpen 0] init) = 0 \<and>
   updateCount (run sample_env [Toggle, SockOpen 0, SockMessage 0 ''{}'' 7] init) = 1"
  by (simp add: init_def sample_env_def sample_parse_def model_defs)

text \<open>
  C5, amended. Every frame that parses is delivered as it is, whatever fields it has:
  the handler stores the parsed value in \<^verbatim>\<open>lastMessage\<close> and calls \<^verbatim>\<open>onMessage\<close>
  with it, which, in an enabled render, sets the update time and adds one to
  \<^verbatim>\<open>updateCount\<close>. A frame that does not parse is not delivered: \<^verbatim>\<open>lastMessage\<close>,
  the update time, \<^verbatim>\<open>updateCount\<close> and the invalidations stay as they were.
\<close>

theorem parsed_frame_delivered:
  "(JSON_parse B d = Some message \<longrightarrow>
      onmessage_try B r now d s = onMessage r now message (s\<lparr>lastMessage := Some message\<rparr>) \<and>
      lastMessage (fst (onmessage B r now d s)) = Some message \<and>
      (cap_isRealTimeEnabled r \<longrightarrow>
         updateCount (fst (onmessage B r now d s)) = updateCount s + 1 \<and>
         lastUpdate (fst (onmessage B r now d s)) = Some now)) \<and>
   (JSON_parse B d = None \<longrightarrow>
      lastMessage (fst (onmessage B r now d s)) = lastMessage s \<and>
      lastUpdate (fst (onmessage B r now d s)) = lastUpdate s \<and>
      updateCount (fst (onmessage B r now d s)) = updateCount s \<and>
      invalidateQueries (fst (onmessage B r now d s)) = invalidateQueries s)"
  by (simp add: onmessage_def onmessage_try_def onMessage_def Let_def
        split: sum.split prod.split)

theorem parsed_frame_delivered_witness:
  "JSON_parse sample_env ''{}'' = Some (JObj []) \<and>
   cap_isRealTimeEnabled (render sample_env (init\<lparr>isRealTimeEnabled := True\<rparr>)) \<and>
   lastMessage (fst (onmessage sample_env (render sample_env (init\<lparr>isRealTimeEnabled := True\<rparr>))
     7 ''{}'' init)) = Some (JObj []) \<and>
   updateCount (fst (onmessage sample_env (render sample_env (init\<lparr>isRealTimeEnabled := True\<rparr>))
     7 ''{}'' init)) = 1 \<and>
   JSON_parse sample_env ''{'' = None \<and>
   lastMessage (fst (onmessage sample_env (render sample_env (init\<lparr>isRealTimeEnabled := True\<rparr>))
     7 ''{'' init)) = None"
  using parsed_frame_delivered [of sample_env "''{}''" "JObj []"
      "render sample_env (init\<lparr>isRealTimeEnabled := True\<rparr>)" 7 init]
    parsed_frame_delivered [of sample_env "''{''" _
      "render sample_env (init\<lparr>isRealTimeEnabled := True\<rparr>)" 7 init]
  by (simp add: init_def sample_env_def sample_parse_def render_def)

section \<open>The update counter\<close>

text \<open>Closures come from enabled renders only, in every state a run from \<open>init\<close> reaches.\<close>

lemma closures_enabled_connect:
  "closures_enabled s \<Longrightarrow> (cap_url r \<noteq> [] \<Longrightarrow> cap_isRealTimeEnabled r) \<Longrightarrow>
   closures_enabled (connect B r s)"
  by (auto simp: closures_enabled_def connect_def Let_def)

lemma closures_enabled_disconnect:
  "closures_enabled s \<Longrightarrow> closures_enabled (disconnect s)"
  by (auto simp: closures_enabled_def disconnect_def clearTimeout_def WebSocket_close_def
        list_all_length nth_list_update split: option.split)

lemma closures_enabled_step:
  assumes "closures_enabled s"
  shows "closures_enabled (step B e s)"
proof (cases e)
  case Toggle
  let ?s0 = "s\<lparr>isRealTimeEnabled := \<not> isRealTimeEnabled s\<rparr>"
  let ?s1 = "disconnect ?s0"
  have c: "closures_enabled ?s1"
    using assms by (intro closures_enabled_disconnect) (simp add: closures_enabled_def)
  have c2: "closures_enabled (?s1\<lparr>connectionStatus := Disconnected, isConnected := False\<rparr>)"
    using c by (simp add: closures_enabled_def)
  have c3: "closures_enabled (connect B (render B ?s0) ?s1)"
    using c by (intro closures_enabled_connect) (auto simp: render_def split: if_splits)
  show ?thesis
    using Toggle c2 c3 by (simp add: step_def toggleRealTime_def useEffect_url_def Let_def)
next
  case (SockOpen i)
  then show ?thesis using assms
    by (auto simp: step_def onopen_def set_readyState_def closures_enabled_def Let_def
          list_all_length nth_list_update)
next
  case (SockMessage i d now)
  then show ?thesis using assms
    by (auto simp: step_def onmessage_def onmessage_try_def onMessage_def
          closures_enabled_def Let_def split: option.split sum.split prod.split)
next
  case (SockClose i)
  then show ?thesis using assms
    by (auto simp: step_def onclose_def setTimeout_def set_readyState_def closures_enabled_def
          Let_def list_all_length nth_list_update nth_append)
next
  case (SockFail i)
  then show ?thesis using assms
    by (auto simp: step_def onclose_def onerror_def setTimeout_def set_readyState_def
          closures_enabled_def Let_def list_all_length nth_list_update nth_append)
next
  case (TimerFire t)
  show ?thesis
  proof (cases "t < length (timers s) \<and> pending (timers s ! t)")
    case True
    have e: "cap_isRealTimeEnabled (timer_env (timers s ! t))"
      using assms True by (simp add: closures_enabled_def list_all_length)
    have "closures_enabled ((clearTimeout t s)\<lparr>reconnectAttempts := reconnectAttempts (clearTimeout t s) + 1\<rparr>)"
      using assms True
      by (auto simp: closures_enabled_def clearTimeout_def list_all_length nth_list_update)
    then show ?thesis
      using TimerFire True e
      by (simp add: step_def reconnect_callback_def closures_enabled_connect)
  next
    case False
    then show ?thesis using TimerFire assms by (auto simp: step_def)
  qed
qed

lemma closures_enabled_run:
  "closures_enabled s \<Longrightarrow> closures_enabled (run B evs s)"
  by (induction evs arbitrary: s) (simp_all add: closures_enabled_step)

lemma closures_enabled_init: "closures_enabled init"
  by (simp add: closures_enabled_def init_def)

lemma updateCount_onmessage:
  "JSON_parse B d = Some message \<Longrightarrow> cap_isRealTimeEnabled r \<Longrightarrow>
   updateCount (fst (onmessage B r now d s)) = updateCount s + 1"
  by (simp add: onmessage_def onmessage_try_def onMessage_def Let_def
        split: sum.split prod.split)

lemma updateCount_other_events:
  "\<not> is_SockMessage e \<Longrightarrow> updateCount (step B e s) = updateCount s"
  by (cases e) (simp_all add: model_defs Let_def split: option.split)

text \<open>
  C7. \<^verbatim>\<open>updateCount\<close> grows by exactly one when a frame parses and reaches the
  \<^verbatim>\<open>onMessage\<close> of an enabled render; it stays when the frame does not parse; and no
  other event (toggle, open, close, failure, reconnect timer) changes it. In every
  state reached from \<open>init\<close>, a frame that parses, delivered to an open socket, adds
  exactly one.
\<close>

theorem updateCount_counts_events:
  "(JSON_parse B d = Some message \<and> cap_isRealTimeEnabled r \<longrightarrow>
      updateCount (fst (onmessage B r now d s)) = updateCount s + 1) \<and>
   (JSON_parse B d = None \<longrightarrow> updateCount (fst (onmessage B r now d s)) = updateCount s) \<and>
   (\<not> is_SockMessage e \<longrightarrow> updateCount (step B e s) = updateCount s) \<and>
   (JSON_parse B d = Some message \<and> i < length (sockets (run B evs init)) \<and>
    readyState (sockets (run B evs init) ! i) = OPEN \<longrightarrow>
      updateCount (step B (SockMessage i d now) (run B evs init)) =
        updateCount (run B evs init) + 1)"
proof (intro conjI impI)
  assume "JSON_parse B d = Some message \<and> cap_isRealTimeEnabled r"
  then show "updateCount (fst (onmessage B r now d s)) = updateCount s + 1"
    by (simp add: updateCount_onmessage)
next
  assume "JSON_parse B d = None"
  then show "updateCount (fst (onmessage B r now d s)) = updateCount s"
    by (simp add: onmessage_def onmessage_try_def)
next
  assume "\<not> is_SockMessage e"
  then show "updateCount (step B e s) = updateCount s"
    by (rule updateCount_other_events)
next
  let ?s = "run B evs init"
  assume a: "JSON_parse B d = Some message \<and> i < length (sockets ?s) \<and>
    readyState (sockets ?s ! i) = OPEN"
  have "closures_enabled ?s"
    by (simp add: closures_enabled_run closures_enabled_init)
  with a have "cap_isRealTimeEnabled (handlers (sockets ?s ! i))"
    by (simp add: closures_enabled_def list_all_length)
  with a show "updateCount (step B (SockMessage i d now) ?s) = updateCount ?s + 1"
    by (simp add: step_def updateCount_onmessage)
qed


theorem updateCount_counts_events_witness:
  \<open>JSON_parse sample_env
     ''{"type":"dashboard_metrics","data":{},"timestamp":"2024-01-01T00:00:00Z"}'' =
     Some (JObj [(''type'', JStr ''dashboard_metrics''), (''data'', JObj []),
                 (''timestamp'', JStr ''2024-01-01T00:00:00Z'')]) \<and>
   readyState (sockets (run sample_env [Toggle, SockOpen 0] init) ! 0) = OPEN \<and>
   updateCount (run sample_env [Toggle, SockOpen 0] init) = 0 \<and>
   updateCount (step sample_env
     (SockMessage 0
        ''{"type":"dashboard_metrics","data":{},"timestamp":"2024-01-01T00:00:00Z"}'' 7)
     (run sample_env [Toggle, SockOpen 0] init)) = 1 \<and>
   JSON_parse sample_env ''not json'' = None \<and>
   updateCount (fst (onmessage sample_env (render sample_env init) 7 ''not json''
     (run sample_env [Toggle, SockClose 0] init))) = 0 \<and>
   \<not> is_SockMessage (TimerFire 0) \<and>
   updateCount (step sample_env (TimerFire 0)
     (run sample_env [Toggle, SockClose 0] init)) = 0\<close>
  using updateCount_counts_events [where B = sample_env
      and d = \<open>''{"type":"dashboard_metrics","data":{},"timestamp":"2024-01-01T00:00:00Z"}''\<close>
      and message = \<open>JObj [(''type'', JStr ''dashboard_metrics''), (''data'', JObj []),
             (''timestamp'', JStr ''2024-01-01T00:00:00Z'')]\<close>
      and now = 7 and e = "TimerFire 0" and i = 0 and evs = "[Toggle, SockOpen 0]"]
    updateCount_counts_events [where B = sample_env and d = "''not json''"
      and r = "render sample_env init"
      and now = 7 and e = "TimerFire 0" and s = "run sample_env [Toggle, SockClose 0] init"]
  by (simp add: init_def sample_env_def sample_parse_def model_defs)

section \<open>The invalidation table\<close>




section \<open>How many sockets\<close>













section \<open>Reconnecting\<close>

text \<open>
  C1, the code at the failing input. Real-time updates are enabled once, and each
  socket closes before it opens; each reconnect timer fires. After five rounds
  \<^verbatim>\<open>reconnectAttempts\<close> is 5, the maximum, and no timer is pending. The sixth close
  event still schedules a timer: \<^verbatim>\<open>onclose\<close> compares the \<^verbatim>\<open>reconnectAttempts\<close> of
  the render that called \<^verbatim>\<open>connect\<close>, which is 0. The timer fires, the count becomes
  6 and a seventh socket is connecting.
\<close>

theorem reconnect_past_maximum:
  "reconnectAttempts (run sample_env
      [Toggle, SockClose 0, TimerFire 0, SockClose 1, TimerFire 1, SockClose 2, TimerFire 2,
       SockClose 3, TimerFire 3, SockClose 4, TimerFire 4] init) = 5 \<and>
   maxReconnectAttempts init = 5 \<and>
   pending_timers (run sample_env
      [Toggle, SockClose 0, TimerFire 0, SockClose 1, TimerFire 1, SockClose 2, TimerFire 2,
       SockClose 3, TimerFire 3, SockClose 4, TimerFire 4] init) = 0 \<and>
   pending_timers (run sample_env
      [Toggle, SockClose 0, TimerFire 0, SockClose 1, TimerFire 1, SockClose 2, TimerFire 2,
       SockClose 3, TimerFire 3, SockClose 4, TimerFire 4, SockClose 5] init) = 1 \<and>
   reconnectAttempts (run sample_env
      [Toggle, SockClose 0, TimerFire 0, SockClose 1, TimerFire 1, SockClose 2, TimerFire 2,
       SockClose 3, TimerFire 3, SockClose 4, TimerFire 4, SockClose 5, TimerFire 5] init) = 6 \<and>
   map readyState (sockets (run sample_env
      [Toggle, SockClose 0, TimerFire 0, SockClose 1, TimerFire 1, SockClose 2, TimerFire 2,
       SockClose 3, TimerFire 3, SockClose 4, TimerFire 4, SockClose 5, TimerFire 5] init)) =
     [CLOSED, CLOSED, CLOSED, CLOSED, CLOSED, CLOSED, CONNECTING]"
  by (simp add: pending_timers_def init_def sample_env_def model_defs)

text \<open>
  C2, the code at the failing input. Enable, the socket opens, disable. When the
  toggle returns the socket is closing and no timer is pending. The close event of
  that socket then runs \<^verbatim>\<open>onclose\<close>, which schedules a reconnect timer; the timer
  fires and \<^verbatim>\<open>connect\<close> of the enabled render constructs a second socket, which
  opens, while \<^verbatim>\<open>isRealTimeEnabled\<close> is false.
\<close>

theorem reconnect_after_disable:
  "\<not> isRealTimeEnabled (run sample_env [Toggle, SockOpen 0, Toggle] init) \<and>
   map readyState (sockets (run sample_env [Toggle, SockOpen 0, Toggle] init)) = [CLOSING] \<and>
   pending_timers (run sample_env [Toggle, SockOpen 0, Toggle] init) = 0 \<and>
   pending_timers (run sample_env [Toggle, SockOpen 0, Toggle, SockClose 0] init) = 1 \<and>
   \<not> isRealTimeEnabled (run sample_env
      [Toggle, SockOpen 0, Toggle, SockClose 0, TimerFire 0] init) \<and>
   map readyState (sockets (run sample_env
      [Toggle, SockOpen 0, Toggle, SockClose 0, TimerFire 0] init)) = [CLOSED, CONNECTING] \<and>
   open_sockets (run sample_env
      [Toggle, SockOpen 0, Toggle, SockClose 0, TimerFire 0] init) = 1 \<and>
   open_sockets (run sample_env
      [Toggle, SockOpen 0, Toggle, SockClose 0, TimerFire 0, SockOpen 1] init) = 1 \<and>
   connectionStatus (run sample_env
      [Toggle, SockOpen 0, Toggle, SockClose 0, TimerFire 0, SockOpen 1] init) = Connected"
  by (simp add: pending_timers_def open_sockets_def is_live_def init_def sample_env_def model_defs)

text \<open>
  C4, as the claim states it, fails. Five failed reconnects bring
  \<^verbatim>\<open>reconnectAttempts\<close> to the maximum, 5; real-time updates are disabled and enabled
  again. \<^verbatim>\<open>connect\<close> has run and the status is connecting, and
  \<^verbatim>\<open>reconnectAttempts\<close> is still 5.
\<close>

theorem reenable_keeps_attempts_counterexample:
  "\<not> isRealTimeEnabled (run sample_env
      [Toggle, SockClose 0, TimerFire 0, SockClose 1, TimerFire 1, SockClose 2, TimerFire 2,
       SockClose 3, TimerFire 3, SockClose 4, TimerFire 4, Toggle] init) \<and>
   reconnectAttempts (run sample_env
      [Toggle, SockClose 0, TimerFire 0, SockClose 1, TimerFire 1, SockClose 2, TimerFire 2,
       SockClose 3, TimerFire 3, SockClose 4, TimerFire 4, Toggle] init) = 5 \<and>
   maxReconnectAttempts init = 5 \<and>
   isRealTimeEnabled (run sample_env
      [Toggle, SockClose 0, TimerFire 0, SockClose 1, TimerFire 1, SockClose 2, TimerFire 2,
       SockClose 3, TimerFire 3, SockClose 4, TimerFire 4, Toggle, Toggle] init) \<and>
   connectionStatus (run sample_env
      [Toggle, SockClose 0, TimerFire 0, SockClose 1, TimerFire 1, SockClose 2, TimerFire 2,
       SockClose 3, TimerFire 3, SockClose 4, TimerFire 4, Toggle, Toggle] init) = Connecting \<and>
   reconnectAttempts (run sample_env
      [Toggle, SockClose 0, TimerFire 0, SockClose 1, TimerFire 1, SockClose 2, TimerFire 2,
       SockClose 3, TimerFire 3, SockClose 4, TimerFire 4, Toggle, Toggle] init) = 5"
  by (simp add: init_def sample_env_def model_defs)

lemma disconnect_fields:
  "reconnectAttempts (disconnect s) = reconnectAttempts s \<and>
   isRealTimeEnabled (disconnect s) = isRealTimeEnabled s \<and>
   reconnectInterval (disconnect s) = reconnectInterval s \<and>
   maxReconnectAttempts (disconnect s) = maxReconnectAttempts s"
  by (auto simp: disconnect_def clearTimeout_def WebSocket_close_def Let_def split: option.split)

lemma sockets_disconnect_flag:
  "sockets (disconnect (s\<lparr>isRealTimeEnabled := b\<rparr>)) = sockets (disconnect s)"
  by (auto simp: disconnect_def clearTimeout_def WebSocket_close_def Let_def split: option.split)

text \<open>
  The state after five failed reconnects and a toggle that disables: the count is at
  the maximum, five sockets are closed and the sixth is closing.
\<close>

lemma exhausted_run:
  "run sample_env
      [Toggle, SockClose 0, TimerFire 0, SockClose 1, TimerFire 1, SockClose 2, TimerFire 2,
       SockClose 3, TimerFire 3, SockClose 4, TimerFire 4, Toggle] init =
   \<lparr>isRealTimeEnabled = False, lastUpdate = None, updateCount = 0,
    isConnected = False, connectionStatus = Disconnected, lastMessage = None,
    reconnectAttempts = 5, ws = Some 5, reconnectTimeoutRef = Some 4,
    reconnectInterval = 3000, maxReconnectAttempts = 5,
    sockets =
      [\<lparr>sock_url = ''ws://localhost:8000/ws'', readyState = CLOSED,
         handlers = enabled_render, sent = []\<rparr>,
       \<lparr>sock_url = ''ws://localhost:8000/ws'', readyState = CLOSED,
         handlers = enabled_render, sent = []\<rparr>,
       \<lparr>sock_url = ''ws://localhost:8000/ws'', readyState = CLOSED,
         handlers = enabled_render, sent = []\<rparr>,
       \<lparr>sock_url = ''ws://localhost:8000/ws'', readyState = CLOSED,
         handlers = enabled_render, sent = []\<rparr>,
       \<lparr>sock_url = ''ws://localhost:8000/ws'', readyState = CLOSED,
         handlers = enabled_render, sent = []\<rparr>,
       \<lparr>sock_url = ''ws://localhost:8000/ws'', readyState = CLOSING,
         handlers = enabled_render, sent = []\<rparr>],
    timers =
      [\<lparr>delay = 3000, timer_env = enabled_render, pending = False\<rparr>,
       \<lparr>delay = 3000, timer_env = enabled_render, pending = False\<rparr>,
       \<lparr>delay = 3000, timer_env = enabled_render, pending = False\<rparr>,
       \<lparr>delay = 3000, timer_env = enabled_render, pending = False\<rparr>,
       \<lparr>delay = 3000, timer_env = enabled_render, pending = False\<rparr>],
    invalidateQueries = [],
    console =
      [''Real-time data connection lost'', ''Real-time data connection lost'',
       ''Real-time data connection lost'', ''Real-time data connection lost'',
       ''Real-time data connection lost'']\<rparr>"
  by (simp add: init_def sample_env_def enabled_render_def model_defs)

text \<open>
  C4, amended. \<^verbatim>\<open>connect\<close> leaves \<^verbatim>\<open>reconnectAttempts\<close> as it was. Of all events
  only the open event of a connecting socket sets \<^verbatim>\<open>reconnectAttempts\<close> to 0, and
  only a pending reconnect timer that fires adds one; a toggle, a message, a close
  and a failure leave it as it was. Enabling makes one new attempt: it constructs
  one socket, connecting, whose handlers belong to the render after the toggle.
\<close>

theorem reconnectAttempts_reset_only_on_open:
  "reconnectAttempts (connect B r s) = reconnectAttempts s \<and>
   reconnectAttempts (step B e s) =
     (case e of
        SockOpen i \<Rightarrow>
          if i < length (sockets s) \<and> readyState (sockets s ! i) = CONNECTING then 0
          else reconnectAttempts s
      | TimerFire t \<Rightarrow>
          if t < length (timers s) \<and> pending (timers s ! t) then reconnectAttempts s + 1
          else reconnectAttempts s
      | _ \<Rightarrow> reconnectAttempts s) \<and>
   (\<not> isRealTimeEnabled s \<and> WebSocket_accepts B (wsUrl B) \<longrightarrow>
      sockets (step B Toggle s) =
        sockets (disconnect s) @
          [\<lparr>sock_url = wsUrl B, readyState = CONNECTING,
            handlers = render B (s\<lparr>isRealTimeEnabled := True\<rparr>), sent = []\<rparr>])"
proof (intro conjI impI)
  show c: "reconnectAttempts (connect B r s) = reconnectAttempts s" for r s
    by (simp add: connect_def Let_def)
  have t: "reconnectAttempts (toggleRealTime B s) = reconnectAttempts s"
    by (simp add: toggleRealTime_def useEffect_url_def Let_def c disconnect_fields)
  have m: "reconnectAttempts (fst (onmessage B r now d s)) = reconnectAttempts s" for r now d
    by (simp add: onmessage_def onmessage_try_def onMessage_def Let_def
          split: option.split sum.split prod.split)
  have k: "reconnectAttempts (clearTimeout t s) = reconnectAttempts s" for t
    by (simp add: clearTimeout_def)
  show "reconnectAttempts (step B e s) =
     (case e of
        SockOpen i \<Rightarrow>
          if i < length (sockets s) \<and> readyState (sockets s ! i) = CONNECTING then 0
          else reconnectAttempts s
      | TimerFire t \<Rightarrow>
          if t < length (timers s) \<and> pending (timers s ! t) then reconnectAttempts s + 1
          else reconnectAttempts s
      | _ \<Rightarrow> reconnectAttempts s)"
    by (cases e)
       (simp_all add: step_def t m c k onopen_def onclose_def onerror_def setTimeout_def
          set_readyState_def reconnect_callback_def Let_def)
next
  have w: "wsUrl B \<noteq> []"
    by (simp add: wsUrl_def split: option.split)
  assume a: "\<not> isRealTimeEnabled s \<and> WebSocket_accepts B (wsUrl B)"
  have d: "sockets (disconnect (s\<lparr>isRealTimeEnabled := True\<rparr>)) = sockets (disconnect s)"
    by (rule sockets_disconnect_flag)
  have u: "cap_url (render B (s\<lparr>isRealTimeEnabled := True\<rparr>)) = wsUrl B"
    by (simp add: render_def)
  show "sockets (step B Toggle s) =
        sockets (disconnect s) @
          [\<lparr>sock_url = wsUrl B, readyState = CONNECTING,
            handlers = render B (s\<lparr>isRealTimeEnabled := True\<rparr>), sent = []\<rparr>]"
    using a w
    by (simp add: step_def toggleRealTime_def useEffect_url_def Let_def u d connect_def)
qed

theorem reconnectAttempts_reset_only_on_open_witness:
  "\<not> isRealTimeEnabled (run sample_env
      [Toggle, SockClose 0, TimerFire 0, SockClose 1, TimerFire 1, SockClose 2, TimerFire 2,
       SockClose 3, TimerFire 3, SockClose 4, TimerFire 4, Toggle] init) \<and>
   WebSocket_accepts sample_env (wsUrl sample_env) \<and>
   reconnectAttempts (run sample_env
      [Toggle, SockClose 0, TimerFire 0, SockClose 1, TimerFire 1, SockClose 2, TimerFire 2,
       SockClose 3, TimerFire 3, SockClose 4, TimerFire 4, Toggle] init) = 5 \<and>
   reconnectAttempts (step sample_env Toggle (run sample_env
      [Toggle, SockClose 0, TimerFire 0, SockClose 1, TimerFire 1, SockClose 2, TimerFire 2,
       SockClose 3, TimerFire 3, SockClose 4, TimerFire 4, Toggle] init)) = 5 \<and>
   map readyState (sockets (step sample_env Toggle (run sample_env
      [Toggle, SockClose 0, TimerFire 0, SockClose 1, TimerFire 1, SockClose 2, TimerFire 2,
       SockClose 3, TimerFire 3, SockClose 4, TimerFire 4, Toggle] init))) =
     [CLOSED, CLOSED, CLOSED, CLOSED, CLOSED, CLOSING, CONNECTING] \<and>
   reconnectAttempts (step sample_env (SockClose 6) (step sample_env Toggle (run sample_env
      [Toggle, SockClose 0, TimerFire 0, SockClose 1, TimerFire 1, SockClose 2, TimerFire 2,
       SockClose 3, TimerFire 3, SockClose 4, TimerFire 4, Toggle] init))) = 5 \<and>
   reconnectAttempts (step sample_env (SockOpen 6) (step sample_env Toggle (run sample_env
      [Toggle, SockClose 0, TimerFire 0, SockClose 1, TimerFire 1, SockClose 2, TimerFire 2,
       SockClose 3, TimerFire 3, SockClose 4, TimerFire 4, Toggle] init))) = 0"
  using reconnectAttempts_reset_only_on_open [where B = sample_env and e = Toggle and s = "run sample_env
      [Toggle, SockClose 0, TimerFire 0, SockClose 1, TimerFire 1, SockClose 2, TimerFire 2,
       SockClose 3, TimerFire 3, SockClose 4, TimerFire 4, Toggle] init"]
    reconnectAttempts_reset_only_on_open [where B = sample_env and e = "SockClose 6" and s =
      "step sample_env Toggle (run sample_env
      [Toggle, SockClose 0, TimerFire 0, SockClose 1, TimerFire 1, SockClose 2, TimerFire 2,
       SockClose 3, TimerFire 3, SockClose 4, TimerFire 4, Toggle] init)"]
    reconnectAttempts_reset_only_on_open [where B = sample_env and e = "SockOpen 6" and s =
      "step sample_env Toggle (run sample_env
      [Toggle, SockClose 0, TimerFire 0, SockClose 1, TimerFire 1, SockClose 2, TimerFire 2,
       SockClose 3, TimerFire 3, SockClose 4, TimerFire 4, Toggle] init)"]
  unfolding exhausted_run
  by (simp add: sample_env_def enabled_render_def model_defs)

end
